theory Spec2Isabelle
  imports Main "HOL-Library.Word" "HOL-Library.Code_Target_Nat"
begin

unbundle bit_operations_syntax

section \<open>The ledger: contracts/CertificateManager.sol\<close>

text \<open>
  The contract keeps one \<open>Certificate\<close> struct per file identifier in a Solidity mapping.
  A Solidity mapping is total: a key that was never written reads as the struct of default
  values (empty strings, zero, \<open>false\<close>), which is how the contract tells an absent record
  from a present one (\<open>bytes(certificates[fid].fid).length > 0\<close>). A Solidity \<open>string\<close> is
  a byte array, modelled as an Isabelle \<open>string\<close>.
\<close>

type_synonym address = "160 word"
type_synonym uint256 = "256 word"

record Certificate =
  fid :: string
  cid :: string
  email :: string
  issueDate :: uint256
  lastModified :: uint256
  issuer :: address
  isActive :: bool

datatype event =
    CertificateIssued string string string uint256 address
  | CertificateUpdated string string uint256 address
  | CertificateVerified string string bool address
  | CertificateDeleted string address

record contract =
  certificates :: "string \<Rightarrow> Certificate"
  certificatesByEmail :: "string \<Rightarrow> string list"
  allFIDs :: "string list"
  events :: "event list"

text \<open>The part of the transaction context the contract reads: \<open>msg.sender\<close> and
  \<open>block.timestamp\<close>.\<close>

record tx =
  msg_sender :: address
  block_timestamp :: uint256

text \<open>A failed \<open>require\<close> reverts the call with its message; the state is then the one
  before the call.\<close>

datatype revert = Revert string

abbreviation InvalidFid :: revert where
  "InvalidFid \<equiv> Revert ''FID cannot be empty''"
abbreviation InvalidCid :: revert where
  "InvalidCid \<equiv> Revert ''CID cannot be empty''"
abbreviation InvalidEmail :: revert where
  "InvalidEmail \<equiv> Revert ''Email cannot be empty''"
abbreviation InvalidNewCid :: revert where
  "InvalidNewCid \<equiv> Revert ''New CID cannot be empty''"
abbreviation DuplicateError :: revert where
  "DuplicateError \<equiv> Revert ''Certificate with this FID already exists''"
abbreviation NotFoundError :: revert where
  "NotFoundError \<equiv> Revert ''Certificate does not exist''"
abbreviation AuthorizationError :: revert where
  "AuthorizationError \<equiv> Revert ''Only issuer can modify certificate''"
abbreviation InactiveError :: revert where
  "InactiveError \<equiv> Revert ''Certificate is not active''"

definition empty_Certificate :: Certificate where
  "empty_Certificate =
     \<lparr>fid = [], cid = [], email = [], issueDate = 0, lastModified = 0, issuer = 0,
      isActive = False\<rparr>"

definition deployed :: contract where
  "deployed =
     \<lparr>certificates = (\<lambda>_. empty_Certificate), certificatesByEmail = (\<lambda>_. []),
      allFIDs = [], events = []\<rparr>"

subsection \<open>Modifiers\<close>

definition onlyIssuer :: "tx \<Rightarrow> string \<Rightarrow> contract \<Rightarrow> bool" where
  "onlyIssuer t f s \<longleftrightarrow> issuer (certificates s f) = msg_sender t"

definition certificateExists :: "string \<Rightarrow> contract \<Rightarrow> bool" where
  "certificateExists f s \<longleftrightarrow> 0 < length (fid (certificates s f))"

definition certificateActive :: "string \<Rightarrow> contract \<Rightarrow> bool" where
  "certificateActive f s \<longleftrightarrow> isActive (certificates s f)"

subsection \<open>External functions\<close>

definition issueCertificate ::
  "tx \<Rightarrow> string \<Rightarrow> string \<Rightarrow> string \<Rightarrow> contract \<Rightarrow> revert + contract" where
  "issueCertificate t f c e s =
     (if \<not> 0 < length f then Inl InvalidFid
      else if \<not> 0 < length c then Inl InvalidCid
      else if \<not> 0 < length e then Inl InvalidEmail
      else if \<not> length (fid (certificates s f)) = 0 then Inl DuplicateError
      else Inr (s\<lparr>
        certificates := (certificates s)(f := (certificates s f)\<lparr>
          fid := f, cid := c, email := e,
          issueDate := block_timestamp t, lastModified := block_timestamp t,
          issuer := msg_sender t, isActive := True\<rparr>),
        certificatesByEmail := (certificatesByEmail s)(e := certificatesByEmail s e @ [f]),
        allFIDs := allFIDs s @ [f],
        events := events s @ [CertificateIssued f c e (block_timestamp t) (msg_sender t)]\<rparr>))"

text \<open>The modifiers run in the order they are written on the function:
  \<open>certificateExists\<close>, \<open>onlyIssuer\<close>, \<open>certificateActive\<close>, and only then the body.\<close>

definition updateCertificate ::
  "tx \<Rightarrow> string \<Rightarrow> string \<Rightarrow> contract \<Rightarrow> revert + contract" where
  "updateCertificate t f newCid s =
     (if \<not> certificateExists f s then Inl NotFoundError
      else if \<not> onlyIssuer t f s then Inl AuthorizationError
      else if \<not> certificateActive f s then Inl InactiveError
      else if \<not> 0 < length newCid then Inl InvalidNewCid
      else Inr (s\<lparr>
        certificates := (certificates s)(f := (certificates s f)\<lparr>
          cid := newCid, lastModified := block_timestamp t\<rparr>),
        events := events s @ [CertificateUpdated f newCid (block_timestamp t) (msg_sender t)]\<rparr>))"

definition verifyCertificate ::
  "tx \<Rightarrow> string \<Rightarrow> string \<Rightarrow> contract \<Rightarrow> revert + (bool \<times> contract)" where
  "verifyCertificate t f e s =
     (if \<not> certificateExists f s then Inl NotFoundError
      else if \<not> certificateActive f s then Inl InactiveError
      else (let isValid = (email (certificates s f) = e)
            in Inr (isValid,
                    s\<lparr>events := events s @ [CertificateVerified f e isValid (msg_sender t)]\<rparr>)))"

definition getCertificate :: "string \<Rightarrow> contract \<Rightarrow> revert + Certificate" where
  "getCertificate f s =
     (if \<not> certificateExists f s then Inl NotFoundError else Inr (certificates s f))"

definition deleteCertificate :: "tx \<Rightarrow> string \<Rightarrow> contract \<Rightarrow> revert + contract" where
  "deleteCertificate t f s =
     (if \<not> certificateExists f s then Inl NotFoundError
      else if \<not> onlyIssuer t f s then Inl AuthorizationError
      else Inr (s\<lparr>
        certificates := (certificates s)(f := (certificates s f)\<lparr>isActive := False\<rparr>),
        events := events s @ [CertificateDeleted f (msg_sender t)]\<rparr>))"

subsection \<open>Transactions\<close>

text \<open>A transaction is one call of a state-changing function by some sender. A reverted
  transaction leaves the contract as it was.\<close>

datatype call =
    Issue string string string
  | Update string string
  | Verify string string
  | Delete string

fun transact :: "tx \<times> call \<Rightarrow> contract \<Rightarrow> contract" where
  "transact (t, Issue f c e) s = (case issueCertificate t f c e s of Inl _ \<Rightarrow> s | Inr s' \<Rightarrow> s')"
| "transact (t, Update f c) s = (case updateCertificate t f c s of Inl _ \<Rightarrow> s | Inr s' \<Rightarrow> s')"
| "transact (t, Verify f e) s = (case verifyCertificate t f e s of Inl _ \<Rightarrow> s | Inr r \<Rightarrow> snd r)"
| "transact (t, Delete f) s = (case deleteCertificate t f s of Inl _ \<Rightarrow> s | Inr s' \<Rightarrow> s')"

fun transacts :: "(tx \<times> call) list \<Rightarrow> contract \<Rightarrow> contract" where
  "transacts [] s = s"
| "transacts (x # xs) s = transacts xs (transact x s)"

section \<open>The envelope codec: app/services/encryptionService.js\<close>

type_synonym bytes = "8 word list"

subsection \<open>Node's \<open>crypto\<close> module\<close>

text \<open>
  The cipher \<open>aes-256-gcm\<close> comes from Node's \<open>crypto\<close> module, which is not part of the
  repository. It is modelled by the construction of GCM: the data is XORed with a
  keystream that depends on the key and the IV, and the tag is computed from the key,
  the IV, the additional authenticated data and the ciphertext. The AES keystream and the
  tag function themselves are parameters.
\<close>

record aes_gcm =
  keystream :: "bytes \<Rightarrow> bytes \<Rightarrow> nat \<Rightarrow> 8 word"
  tag_of :: "bytes \<Rightarrow> bytes \<Rightarrow> bytes \<Rightarrow> bytes \<Rightarrow> bytes"

datatype crypto_fault =
    InvalidKeyLength
  | InvalidIV
  | InvalidTagLength
  | UnableToAuthenticate

definition ctr_xor :: "aes_gcm \<Rightarrow> bytes \<Rightarrow> bytes \<Rightarrow> bytes \<Rightarrow> bytes" where
  "ctr_xor lib key nonce data =
     map (\<lambda>(i, b). b XOR keystream lib key nonce i) (enumerate 0 data)"

text \<open>\<open>createCipheriv\<close> and \<open>createDecipheriv\<close> throw on an empty IV and on a key that
  is not 32 bytes long; the IV is looked at first.\<close>

definition cipher_init :: "bytes \<Rightarrow> bytes \<Rightarrow> crypto_fault option" where
  "cipher_init key nonce =
     (if nonce = [] then Some InvalidIV
      else if length key \<noteq> 32 then Some InvalidKeyLength
      else None)"

definition gcm_encrypt ::
  "aes_gcm \<Rightarrow> bytes \<Rightarrow> bytes \<Rightarrow> bytes \<Rightarrow> bytes \<Rightarrow> crypto_fault + (bytes \<times> bytes)" where
  "gcm_encrypt lib key nonce aad plain =
     (case cipher_init key nonce of
        Some e \<Rightarrow> Inl e
      | None \<Rightarrow>
          (let encrypted = ctr_xor lib key nonce plain
           in Inr (encrypted, tag_of lib key nonce aad encrypted)))"

text \<open>\<open>setAuthTag\<close> admits tags of 4, 8 and 12 to 16 bytes; \<open>final\<close> compares the given
  tag with the computed one, cut to the given length, and throws when they differ.\<close>

definition valid_tag_length :: "nat \<Rightarrow> bool" where
  "valid_tag_length n \<longleftrightarrow> n = 4 \<or> n = 8 \<or> (12 \<le> n \<and> n \<le> 16)"

definition gcm_decrypt ::
  "aes_gcm \<Rightarrow> bytes \<Rightarrow> bytes \<Rightarrow> bytes \<Rightarrow> bytes \<Rightarrow> bytes \<Rightarrow> crypto_fault + bytes" where
  "gcm_decrypt lib key nonce aad tag encrypted =
     (case cipher_init key nonce of
        Some e \<Rightarrow> Inl e
      | None \<Rightarrow>
          if \<not> valid_tag_length (length tag) then Inl InvalidTagLength
          else if take (length tag) (tag_of lib key nonce aad encrypted) = tag
          then Inr (ctr_xor lib key nonce encrypted)
          else Inl UnableToAuthenticate)"

subsection \<open>Buffers and strings\<close>

text \<open>A \<open>string\<close> stands for the UTF-8 bytes of a JavaScript string, so
  \<open>Buffer.from(s, "utf8")\<close> reads the characters as bytes.\<close>

definition utf8 :: "string \<Rightarrow> bytes" where
  "utf8 s = map of_char s"

definition b64_alphabet :: string where
  "b64_alphabet = ''ABCDEFGHIJKLMNOPQRSTUVWXYZabcdefghijklmnopqrstuvwxyz0123456789+/''"

definition b64_char :: "nat \<Rightarrow> char" where
  "b64_char v = b64_alphabet ! v"

text \<open>The decoder of \<open>Buffer.from(s, "base64")\<close> also reads the URL-safe alphabet.\<close>

definition b64_value :: "char \<Rightarrow> nat option" where
  "b64_value c = map_of (zip (b64_alphabet @ ''-_'') ([0..<64] @ [62, 63])) c"

fun to_sextets :: "bytes \<Rightarrow> nat list" where
  "to_sextets (a # b # c # rest) =
     [unat a div 4, (unat a mod 4) * 16 + unat b div 16,
      (unat b mod 16) * 4 + unat c div 64, unat c mod 64] @ to_sextets rest"
| "to_sextets [a, b] =
     [unat a div 4, (unat a mod 4) * 16 + unat b div 16, (unat b mod 16) * 4]"
| "to_sextets [a] = [unat a div 4, (unat a mod 4) * 16]"
| "to_sextets [] = []"

fun from_sextets :: "nat list \<Rightarrow> bytes" where
  "from_sextets (w # x # y # z # rest) =
     [of_nat (w * 4 + x div 16), of_nat ((x mod 16) * 16 + y div 4),
      of_nat ((y mod 4) * 64 + z)] @ from_sextets rest"
| "from_sextets [w, x, y] = [of_nat (w * 4 + x div 16), of_nat ((x mod 16) * 16 + y div 4)]"
| "from_sextets [w, x] = [of_nat (w * 4 + x div 16)]"
| "from_sextets _ = []"

text \<open>\<open>buf.toString("base64")\<close>: four characters for every three bytes, padded with
  \<open>=\<close>.\<close>

definition base64_encode :: "bytes \<Rightarrow> string" where
  "base64_encode bs =
     map b64_char (to_sextets bs) @ replicate ((3 - length bs mod 3) mod 3) (CHR ''='')"

text \<open>\<open>Buffer.from(s, "base64")\<close> never throws: it reads up to the padding and skips
  the characters outside the alphabet.\<close>

definition base64_decode :: "string \<Rightarrow> bytes" where
  "base64_decode s =
     from_sextets (List.map_filter b64_value (takeWhile (\<lambda>c. c \<noteq> CHR ''='') s))"

subsection \<open>Errors and values of the JavaScript side\<close>

text \<open>Every \<open>catch\<close> block of the services rethrows \<open>new Error(prefix + ": " +
  error.message)\<close>; \<open>Failed prefix cause\<close> is that error.\<close>

datatype js_error =
    CryptoError crypto_fault
  | JsonSyntaxError
  | TypeError
  | FetchFailed
  | Message string
  | EvmRevert revert
  | Failed string js_error

text \<open>The values \<open>JSON.parse\<close> gives, and \<open>undefined\<close> for a field that is absent.\<close>

datatype jsval =
    JUndefined
  | JNull
  | JBool bool
  | JNum int
  | JStr string
  | JArr "jsval list"
  | JObj "(string \<times> jsval) list"

text \<open>
  Conversion to a string, as a template literal and \<open>String(v)\<close> do it. An object read
  from JSON holds no function, so one with a property of its own named \<open>toString\<close> has
  no callable \<open>toString\<close>, and its inherited \<open>valueOf\<close> returns the object itself: the
  conversion throws a \<open>TypeError\<close>. An array converts its elements and joins them.
\<close>

fun stringifiable :: "jsval \<Rightarrow> bool" where
  "stringifiable (JArr xs) = (\<forall>x \<in> set xs. stringifiable x)"
| "stringifiable (JObj kvs) = (''toString'' \<notin> set (map fst kvs))"
| "stringifiable _ = True"

fun decimal :: "nat \<Rightarrow> string" where
  "decimal n =
     (if n < 10 then [char_of (48 + n)] else decimal (n div 10) @ [char_of (48 + n mod 10)])"

fun join_comma :: "string list \<Rightarrow> string" where
  "join_comma [] = []"
| "join_comma [s] = s"
| "join_comma (s # t # ss) = s @ '','' @ join_comma (t # ss)"

fun js_to_string :: "jsval \<Rightarrow> string" where
  "js_to_string JUndefined = ''undefined''"
| "js_to_string JNull = ''null''"
| "js_to_string (JBool b) = (if b then ''true'' else ''false'')"
| "js_to_string (JNum n) = (if n < 0 then ''-'' else []) @ decimal (nat \<bar>n\<bar>)"
| "js_to_string (JStr s) = s"
| "js_to_string (JArr xs) =
     join_comma (map (\<lambda>x. if x = JNull \<or> x = JUndefined then [] else js_to_string x) xs)"
| "js_to_string (JObj kvs) = ''[object Object]''"

subsection \<open>The service\<close>

record EncryptionService =
  svc_algorithm :: string
  secretKey :: bytes

record file_meta =
  algorithm :: jsval
  fileName :: string
  originalSize :: jsval
  encryptedSize :: jsval
  timestamp :: jsval

text \<open>The object built by \<open>encryptFile\<close> holds Buffers (\<open>bytes envelope\<close>); the one that
  \<open>encryptForIPFS\<close> serialises holds their base64 text (\<open>string envelope\<close>).\<close>

record 'a envelope = file_meta +
  encryptedContent :: 'a
  iv :: 'a
  authTag :: 'a

record decrypted_file = file_meta +
  content :: bytes

text \<open>What the content store holds: the UTF-8 text of a JSON document, written here as
  the document that \<open>JSON.parse\<close> reads from it, or bytes that \<open>JSON.parse\<close> rejects.\<close>

datatype blob = JsonText "string envelope" | NotJson bytes

text \<open>\<open>encryptFile\<close> draws the IV from \<open>crypto.randomBytes(16)\<close> and the timestamp from
  \<open>Date.now()\<close>; both are arguments here (\<open>rnd\<close>, \<open>now\<close>).\<close>

definition encryptFile ::
  "aes_gcm \<Rightarrow> EncryptionService \<Rightarrow> bytes \<Rightarrow> int \<Rightarrow> bytes \<Rightarrow> string
   \<Rightarrow> js_error + bytes envelope" where
  "encryptFile lib svc rnd now fileData name =
     (case gcm_encrypt lib (secretKey svc) rnd (utf8 name) fileData of
        Inl e \<Rightarrow> Inl (Failed ''Failed to encrypt file'' (CryptoError e))
      | Inr (encrypted, tag) \<Rightarrow>
          Inr \<lparr>algorithm = JStr (svc_algorithm svc), fileName = name,
               originalSize = JNum (int (length fileData)),
               encryptedSize = JNum (int (length encrypted)),
               timestamp = JNum now,
               encryptedContent = encrypted, iv = rnd, authTag = tag\<rparr>)"

text \<open>After the cipher has authenticated the data, and still inside the \<open>try\<close>,
  \<open>decryptFile\<close> writes \<open>encryptedData.originalSize\<close> into a log line with a template
  literal; a value that cannot be converted to a string makes this throw.\<close>

definition decryptFile ::
  "aes_gcm \<Rightarrow> EncryptionService \<Rightarrow> bytes envelope \<Rightarrow> js_error + bytes" where
  "decryptFile lib svc encryptedData =
     (case gcm_decrypt lib (secretKey svc) (iv encryptedData)
             (utf8 (fileName encryptedData)) (authTag encryptedData)
             (encryptedContent encryptedData) of
        Inl e \<Rightarrow> Inl (Failed ''Failed to decrypt file'' (CryptoError e))
      | Inr decrypted \<Rightarrow>
          if stringifiable (originalSize encryptedData) then Inr decrypted
          else Inl (Failed ''Failed to decrypt file'' TypeError))"

definition encryptForIPFS ::
  "aes_gcm \<Rightarrow> EncryptionService \<Rightarrow> bytes \<Rightarrow> int \<Rightarrow> bytes \<Rightarrow> string \<Rightarrow> js_error + blob" where
  "encryptForIPFS lib svc rnd now fileData name =
     (case encryptFile lib svc rnd now fileData name of
        Inl e \<Rightarrow> Inl e
      | Inr encryptedData \<Rightarrow>
          Inr (JsonText
            \<lparr>algorithm = algorithm encryptedData, fileName = fileName encryptedData,
             originalSize = originalSize encryptedData,
             encryptedSize = encryptedSize encryptedData,
             timestamp = timestamp encryptedData,
             encryptedContent = base64_encode (encryptedContent encryptedData),
             iv = base64_encode (iv encryptedData),
             authTag = base64_encode (authTag encryptedData)\<rparr>))"

fun decryptFromIPFS ::
  "aes_gcm \<Rightarrow> EncryptionService \<Rightarrow> blob \<Rightarrow> js_error + decrypted_file" where
  "decryptFromIPFS lib svc (NotJson _) =
     Inl (Failed ''Failed to decrypt file from IPFS'' JsonSyntaxError)"
| "decryptFromIPFS lib svc (JsonText serializableData) =
     (let encryptedData =
            \<lparr>algorithm = algorithm serializableData, fileName = fileName serializableData,
             originalSize = originalSize serializableData,
             encryptedSize = encryptedSize serializableData,
             timestamp = timestamp serializableData,
             encryptedContent = base64_decode (encryptedContent serializableData),
             iv = base64_decode (iv serializableData),
             authTag = base64_decode (authTag serializableData)\<rparr>
      in case decryptFile lib svc encryptedData of
           Inl e \<Rightarrow> Inl (Failed ''Failed to decrypt file from IPFS'' e)
         | Inr decryptedContent \<Rightarrow>
             Inr \<lparr>algorithm = algorithm encryptedData, fileName = fileName encryptedData,
                  originalSize = originalSize encryptedData,
                  encryptedSize = encryptedSize encryptedData,
                  timestamp = timestamp encryptedData,
                  content = decryptedContent\<rparr>)"

section \<open>The services the controller calls\<close>

text \<open>
  The controller talks to two systems outside the process: the contract, through
  \<open>BlockchainService\<close>, and an IPFS node, through \<open>IPFSService\<close>. The state of both and the
  list of the requests sent to them, in the order they were sent, make up the \<open>world\<close>. An
  IPFS node holds blocks by content identifier and a set of pins; \<open>pin/rm\<close> answers
  \<open>500 Internal Server Error\<close> for a content identifier that is not pinned, \<open>cat\<close> for one
  it has no block of, and an unreachable node makes \<open>fetch\<close> throw.
\<close>

record ipfs =
  reachable :: bool
  blocks :: "string \<Rightarrow> blob option"
  pins :: "string list"

record http_response =
  status :: nat
  statusText :: string

definition ok :: "http_response \<Rightarrow> bool" where
  "ok r \<longleftrightarrow> 200 \<le> status r \<and> status r \<le> 299"

definition pin_rm :: "ipfs \<Rightarrow> string \<Rightarrow> http_response" where
  "pin_rm n c =
     (if c \<in> set (pins n) then \<lparr>status = 200, statusText = ''OK''\<rparr>
      else \<lparr>status = 500, statusText = ''Internal Server Error''\<rparr>)"

text \<open>The answer of \<open>cat\<close> with its body.\<close>

definition cat :: "ipfs \<Rightarrow> string \<Rightarrow> http_response \<times> blob" where
  "cat n c =
     (case blocks n c of
        Some b \<Rightarrow> (\<lparr>status = 200, statusText = ''OK''\<rparr>, b)
      | None \<Rightarrow> (\<lparr>status = 500, statusText = ''Internal Server Error''\<rparr>, NotJson []))"

datatype request =
    ChainGetCertificate string
  | ChainVerifyCertificate string string
  | ChainDeleteCertificate string
  | IpfsPinRm string
  | IpfsCat string

record world =
  ledger :: contract
  ledger_time :: uint256
  node :: ipfs
  requests :: "request list"

definition sent :: "request \<Rightarrow> world \<Rightarrow> world" where
  "sent r w = w\<lparr>requests := requests w @ [r]\<rparr>"

subsection \<open>app/services/blockchainService.js\<close>

text \<open>\<open>contract_loaded\<close> is \<open>this.contract\<close> being set; \<open>member1\<close> is the account whose key
  signs the transactions.\<close>

record BlockchainService =
  contract_loaded :: bool
  member1 :: address

text \<open>
  \<open>getCertificate\<close> returns a JavaScript object. The two dates arrive as decimal strings
  and go through \<open>parseInt\<close>, which gives a double: the nearest one, ties to even, so a
  date of 2^53 or more may be rounded. The contract has no \<open>versionHistory\<close>, so that
  field is \<open>undefined\<close>.
\<close>

fun bit_length :: "nat \<Rightarrow> nat" where
  "bit_length n = (if n = 0 then 0 else Suc (bit_length (n div 2)))"

definition parseInt :: "uint256 \<Rightarrow> int" where
  "parseInt x =
     (let n = unat x; e = bit_length n - 53; q = n div 2 ^ e; r = n mod 2 ^ e
      in if 2 ^ e < 2 * r \<or> (2 * r = 2 ^ e \<and> odd q) then int ((q + 1) * 2 ^ e)
         else int (q * 2 ^ e))"

record certificate_object =
  fid_of :: string
  cid_of :: string
  email_of :: string
  issueDate_of :: int
  lastModified_of :: int
  issuer_of :: address
  isActive_of :: bool
  versionHistory_of :: jsval

definition BlockchainService_getCertificate ::
  "BlockchainService \<Rightarrow> string \<Rightarrow> world \<Rightarrow> (js_error + certificate_object) \<times> world" where
  "BlockchainService_getCertificate bs f w =
     (if \<not> contract_loaded bs
      then (Inl (Failed ''Failed to get certificate''
                  (Message ''Contract not deployed or loaded'')), w)
      else (case getCertificate f (ledger w) of
              Inl r \<Rightarrow> (Inl (Failed ''Failed to get certificate'' (EvmRevert r)),
                       sent (ChainGetCertificate f) w)
            | Inr certificate \<Rightarrow>
                (Inr \<lparr>fid_of = fid certificate, cid_of = cid certificate,
                      email_of = email certificate,
                      issueDate_of = parseInt (issueDate certificate),
                      lastModified_of = parseInt (lastModified certificate),
                      issuer_of = issuer certificate, isActive_of = isActive certificate,
                      versionHistory_of = JUndefined\<rparr>,
                 sent (ChainGetCertificate f) w)))"

text \<open>\<open>verifyCertificate\<close> is run with \<open>.call()\<close> and no sender: the node evaluates it
  and returns the result, and nothing is written to the chain, the event included.\<close>

definition BlockchainService_verifyCertificate ::
  "BlockchainService \<Rightarrow> string \<Rightarrow> string \<Rightarrow> world \<Rightarrow> (js_error + bool) \<times> world" where
  "BlockchainService_verifyCertificate bs f e w =
     (if \<not> contract_loaded bs
      then (Inl (Failed ''Failed to verify certificate''
                  (Message ''Contract not deployed or loaded'')), w)
      else (case verifyCertificate
                   \<lparr>msg_sender = 0, block_timestamp = ledger_time w\<rparr> f e (ledger w) of
              Inl r \<Rightarrow> (Inl (Failed ''Failed to verify certificate'' (EvmRevert r)),
                       sent (ChainVerifyCertificate f e) w)
            | Inr res \<Rightarrow> (Inr (fst res), sent (ChainVerifyCertificate f e) w)))"

text \<open>The controller calls \<open>deleteCertificate(fid)\<close> with \<open>isPrivate\<close> left at its default
  \<open>false\<close>: the public branch, a transaction signed by \<open>member1\<close>. A reverted transaction
  makes \<open>sendSignedTransaction\<close> throw.\<close>

definition BlockchainService_deleteCertificate ::
  "BlockchainService \<Rightarrow> string \<Rightarrow> world \<Rightarrow> (js_error + unit) \<times> world" where
  "BlockchainService_deleteCertificate bs f w =
     (if \<not> contract_loaded bs
      then (Inl (Failed ''Failed to delete certificate''
                  (Message ''Contract not deployed or loaded'')), w)
      else (case deleteCertificate
                   \<lparr>msg_sender = member1 bs, block_timestamp = ledger_time w\<rparr> f (ledger w) of
              Inl r \<Rightarrow> (Inl (Failed ''Failed to delete certificate'' (EvmRevert r)),
                       sent (ChainDeleteCertificate f) w)
            | Inr s' \<Rightarrow> (Inr (), sent (ChainDeleteCertificate f) (w\<lparr>ledger := s'\<rparr>))))"

subsection \<open>app/services/ipfsService.js\<close>

record IPFSService =
  encryptionService :: EncryptionService

text \<open>Both functions throw \<open>new Error(what + ": " + response.status + " " +
  response.statusText)\<close> for a response that is not \<open>ok\<close>.\<close>

definition http_failure :: "string \<Rightarrow> http_response \<Rightarrow> js_error" where
  "http_failure what r = Message (what @ '': '' @ decimal (status r) @ '' '' @ statusText r)"

definition IPFSService_retrieveFile ::
  "aes_gcm \<Rightarrow> IPFSService \<Rightarrow> string \<Rightarrow> world \<Rightarrow> (js_error + decrypted_file) \<times> world" where
  "IPFSService_retrieveFile lib ipfsService c w =
     (let w' = sent (IpfsCat c) w in
      if \<not> reachable (node w)
      then (Inl (Failed ''Failed to retrieve file from IPFS'' FetchFailed), w')
      else (case cat (node w) c of
              (response, encryptedBuffer) \<Rightarrow>
                if \<not> ok response
                then (Inl (Failed ''Failed to retrieve file from IPFS''
                            (http_failure ''IPFS retrieval failed'' response)), w')
                else (case decryptFromIPFS lib (encryptionService ipfsService)
                             encryptedBuffer of
                        Inl e \<Rightarrow> (Inl (Failed ''Failed to retrieve file from IPFS'' e), w')
                      | Inr decryptedData \<Rightarrow> (Inr decryptedData, w'))))"

definition IPFSService_removeFile ::
  "string \<Rightarrow> world \<Rightarrow> (js_error + bool) \<times> world" where
  "IPFSService_removeFile c w =
     (let w' = sent (IpfsPinRm c) w in
      if \<not> reachable (node w)
      then (Inl (Failed ''Failed to remove file from IPFS'' FetchFailed), w')
      else if \<not> ok (pin_rm (node w) c)
      then (Inl (Failed ''Failed to remove file from IPFS''
                  (http_failure ''IPFS unpin failed'' (pin_rm (node w) c))), w')
      else (Inr True, w'\<lparr>node := (node w)\<lparr>pins := removeAll c (pins (node w))\<rparr>\<rparr>))"

section \<open>The certificate controller\<close>

record CertificateController =
  ipfsService :: IPFSService
  blockchainService :: BlockchainService

text \<open>A response is either a JSON body with its status code, or the file sent by
  \<open>downloadCertificate\<close>. Of the headers of the download, the content type and the two
  identifiers are kept.\<close>

datatype data =
    NoData
  | ErrorMessage js_error
  | ValidationMessage string
  | Verification string string bool "string option" "certificate_object option"
  | Deletion string string

text \<open>What a lookup \<open>contentTypes[ext]\<close> in the table of \<open>getContentType\<close> can give: a
  string of the table, or, for the two lower-case names that every object inherits, the
  function \<open>Object\<close> and the object \<open>Object.prototype\<close>.\<close>

datatype content_type = ContentType string | ObjectConstructor | ObjectPrototype

datatype response =
    Json nat bool string data
  | Download content_type string string decrypted_file

text \<open>The outcome of \<open>schema.validate(req.body)\<close> of the Joi library is an argument.\<close>

datatype 'a joi = JoiError string | JoiValue 'a

definition CertificateController_verifyCertificate ::
  "CertificateController \<Rightarrow> (string \<times> string) joi \<Rightarrow> world \<Rightarrow> response \<times> world" where
  "CertificateController_verifyCertificate ctl validated w =
     (case validated of
        JoiError m \<Rightarrow> (Json 400 False ''Validation error'' (ValidationMessage m), w)
      | JoiValue (f, e) \<Rightarrow>
          (case BlockchainService_getCertificate (blockchainService ctl) f w of
             (Inl err, w1) \<Rightarrow>
               (Json 500 False ''Failed to verify certificate'' (ErrorMessage err), w1)
           | (Inr certificate, w1) \<Rightarrow>
               if \<not> isActive_of certificate
               then (Json 200 False ''Certificate verification failed''
                       (Verification f e False (Some ''Certificate is not active'') None), w1)
               else (case BlockchainService_verifyCertificate (blockchainService ctl) f e w1 of
                       (Inl err, w2) \<Rightarrow>
                         (Json 500 False ''Failed to verify certificate'' (ErrorMessage err), w2)
                     | (Inr isValid, w2) \<Rightarrow>
                         (Json 200 True
                            (if isValid then ''Certificate verification successful''
                             else ''Certificate verification failed'')
                            (Verification f e isValid None
                               (if isValid then Some certificate else None)), w2))))"

definition CertificateController_deleteCertificate ::
  "CertificateController \<Rightarrow> string \<Rightarrow> world \<Rightarrow> response \<times> world" where
  "CertificateController_deleteCertificate ctl f w =
     (case BlockchainService_getCertificate (blockchainService ctl) f w of
        (Inl err, w1) \<Rightarrow>
          (Json 500 False ''Failed to delete certificate'' (ErrorMessage err), w1)
      | (Inr certificate, w1) \<Rightarrow>
          (case IPFSService_removeFile (cid_of certificate) w1 of
             (Inl err, w2) \<Rightarrow>
               (Json 500 False ''Failed to delete certificate'' (ErrorMessage err), w2)
           | (Inr _, w2) \<Rightarrow>
               (case BlockchainService_deleteCertificate (blockchainService ctl) f w2 of
                  (Inl err, w3) \<Rightarrow>
                    (Json 500 False ''Failed to delete certificate'' (ErrorMessage err), w3)
                | (Inr _, w3) \<Rightarrow>
                    (Json 200 True ''Certificate deleted successfully''
                       (Deletion f (cid_of certificate)), w3))))"

text \<open>\<open>getContentType\<close>: the text after the last dot, in lower case, looked up in a
  table.\<close>

definition toLowerCase :: "string \<Rightarrow> string" where
  "toLowerCase s =
     map (\<lambda>c. if (65::nat) \<le> of_char c \<and> of_char c \<le> (90::nat)
              then char_of (of_char c + (32::nat)) else c) s"

fun split_dot :: "string \<Rightarrow> string \<Rightarrow> string list" where
  "split_dot acc [] = [rev acc]"
| "split_dot acc (c # cs) =
     (if c = CHR ''.'' then rev acc # split_dot [] cs else split_dot (c # acc) cs)"

definition getContentType :: "string \<Rightarrow> content_type" where
  "getContentType name =
     (if last (split_dot [] (toLowerCase name)) = ''constructor'' then ObjectConstructor
      else if last (split_dot [] (toLowerCase name)) = ''__proto__'' then ObjectPrototype
      else case map_of
        [(''pdf'', ''application/pdf''), (''txt'', ''text/plain''), (''html'', ''text/html''),
         (''htm'', ''text/html''), (''json'', ''application/json''), (''png'', ''image/png''),
         (''jpg'', ''image/jpeg''), (''jpeg'', ''image/jpeg''), (''gif'', ''image/gif''),
         (''svg'', ''image/svg+xml''), (''mp4'', ''video/mp4''), (''mp3'', ''audio/mpeg''),
         (''zip'', ''application/zip''), (''doc'', ''application/msword''),
         (''docx'',
          ''application/vnd.openxmlformats-officedocument.wordprocessingml.document''),
         (''xls'', ''application/vnd.ms-excel''),
         (''xlsx'', ''application/vnd.openxmlformats-officedocument.spreadsheetml.sheet'')]
        (last (split_dot [] (toLowerCase name))) of
        None \<Rightarrow> ContentType ''application/octet-stream''
      | Some t \<Rightarrow> ContentType t)"

text \<open>\<open>v.toString()\<close> throws a \<open>TypeError\<close> for \<open>undefined\<close> and \<open>null\<close>, and where the
  conversion to a string does.\<close>

definition has_toString :: "jsval \<Rightarrow> bool" where
  "has_toString v \<longleftrightarrow> v \<noteq> JUndefined \<and> v \<noteq> JNull \<and> stringifiable v"

text \<open>\<open>setHeader\<close> throws a \<open>TypeError\<close> for a value with a character outside tab,
  \<open>0x20\<close> to \<open>0x7e\<close> and \<open>0x80\<close> to \<open>0xff\<close>. In UTF-8, a character above \<open>0xff\<close> is one
  whose first byte is \<open>0xc4\<close> or more.\<close>

definition valid_header_value :: "string \<Rightarrow> bool" where
  "valid_header_value s \<longleftrightarrow>
     (\<forall>c \<in> set s. of_char c = (9::nat) \<or> ((32::nat) \<le> of_char c \<and> of_char c \<le> (126::nat))
        \<or> ((128::nat) \<le> of_char c \<and> of_char c < (196::nat)))"

text \<open>The two route parameters are strings; the empty string is the falsy one. The
  headers of the download hold the two route parameters, the file name, the algorithm,
  and \<open>toString()\<close> of the two sizes and of the timestamp of the decrypted file; the
  object of the headers is built first, then \<open>res.set\<close> sets them one by one.\<close>

definition CertificateController_downloadCertificate ::
  "aes_gcm \<Rightarrow> CertificateController \<Rightarrow> string \<Rightarrow> string \<Rightarrow> world \<Rightarrow> response \<times> world" where
  "CertificateController_downloadCertificate lib ctl f c w =
     (if f = [] \<or> c = []
      then (Json 400 False ''Missing required parameters: fid and cid'' NoData, w)
      else (case BlockchainService_getCertificate (blockchainService ctl) f w of
              (Inl err, w1) \<Rightarrow>
                (Json 500 False ''Failed to download certificate'' (ErrorMessage err), w1)
            | (Inr certificate, w1) \<Rightarrow>
                if \<not> isActive_of certificate
                then (Json 404 False ''Certificate not found or inactive'' NoData, w1)
                else if cid_of certificate \<noteq> c
                then (Json 400 False ''CID does not match certificate'' NoData, w1)
                else (case IPFSService_retrieveFile lib (ipfsService ctl) c w1 of
                        (Inl err, w2) \<Rightarrow>
                          (Json 500 False ''Failed to download certificate''
                             (ErrorMessage err), w2)
                      | (Inr decryptedFile, w2) \<Rightarrow>
                          if has_toString (originalSize decryptedFile)
                             \<and> has_toString (encryptedSize decryptedFile)
                             \<and> has_toString (timestamp decryptedFile)
                             \<and> stringifiable (algorithm decryptedFile)
                             \<and> valid_header_value (fileName decryptedFile)
                             \<and> valid_header_value f \<and> valid_header_value c
                             \<and> valid_header_value (js_to_string (originalSize decryptedFile))
                             \<and> valid_header_value (js_to_string (encryptedSize decryptedFile))
                             \<and> valid_header_value (js_to_string (algorithm decryptedFile))
                             \<and> valid_header_value (js_to_string (timestamp decryptedFile))
                          then (Download (getContentType (fileName decryptedFile)) f c
                                  decryptedFile, w2)
                          else (Json 500 False ''Failed to download certificate''
                                  (ErrorMessage TypeError), w2))))"

section \<open>Single-bit changes to an envelope\<close>







section \<open>Sample values\<close>

text \<open>A small cipher of the shape of \<open>aes_gcm\<close> (the tag holds the XOR of the bytes of
  each input), a service, a ledger with one certificate, and a world around it.\<close>

definition xor_sum :: "bytes \<Rightarrow> 8 word" where
  "xor_sum bs = foldr (XOR) bs 0"

definition sample_gcm :: aes_gcm where
  "sample_gcm =
     \<lparr>keystream = (\<lambda>key nonce i. key ! (i mod 32) XOR nonce ! (i mod 16)),
      tag_of = (\<lambda>key nonce aad c.
         [xor_sum key, xor_sum nonce, xor_sum aad, xor_sum c] @ replicate 12 0)\<rparr>"

definition sample_service :: EncryptionService where
  "sample_service = \<lparr>svc_algorithm = ''aes-256-gcm'', secretKey = map of_nat [0..<32]\<rparr>"

definition sample_iv :: bytes where
  "sample_iv = map of_nat [100..<116]"

definition sample_envelope :: "string envelope" where
  "sample_envelope =
     \<lparr>algorithm = JStr ''aes-256-gcm'', fileName = ''a.txt'',
      originalSize = JNum 8, encryptedSize = JNum 8, timestamp = JNum 1700000000000,
      encryptedContent = ''DA1EEAQJHgk='', iv = ''ZGVmZ2hpamtsbW5vcHFycw=='',
      authTag = ''AAA3TwAAAAAAAAAAAAAAAA==''\<rparr>"

definition sample_issued :: contract where
  "sample_issued =
     transacts [(\<lparr>msg_sender = 1, block_timestamp = 10\<rparr>, Issue ''f1'' ''QmA'' ''a@x.com'')]
       deployed"

definition sample_deleted :: contract where
  "sample_deleted =
     transacts [(\<lparr>msg_sender = 1, block_timestamp = 10\<rparr>, Issue ''f1'' ''QmA'' ''a@x.com''),
                (\<lparr>msg_sender = 1, block_timestamp = 20\<rparr>, Delete ''f1'')]
       deployed"

definition sample_controller :: CertificateController where
  "sample_controller =
     \<lparr>ipfsService = \<lparr>encryptionService = sample_service\<rparr>,
      blockchainService = \<lparr>contract_loaded = True, member1 = 1\<rparr>\<rparr>"

definition sample_world :: "contract \<Rightarrow> bool \<Rightarrow> world" where
  "sample_world s up =
     \<lparr>ledger = s, ledger_time = 50,
      node = \<lparr>reachable = up, blocks = [''QmA'' \<mapsto> JsonText sample_envelope],
              pins = [''QmA'']\<rparr>,
      requests = []\<rparr>"

section \<open>Facts about the ledger\<close>

lemmas contract_defs =
  issueCertificate_def updateCertificate_def verifyCertificate_def getCertificate_def
  deleteCertificate_def certificateExists_def certificateActive_def onlyIssuer_def
  deployed_def empty_Certificate_def

lemmas service_defs =
  BlockchainService_getCertificate_def BlockchainService_verifyCertificate_def
  BlockchainService_deleteCertificate_def IPFSService_removeFile_def
  IPFSService_retrieveFile_def sent_def pin_rm_def ok_def

lemma sent_simps:
  "requests (sent r w) = requests w @ [r]"
  "ledger (sent r w) = ledger w"
  "ledger_time (sent r w) = ledger_time w"
  "node (sent r w) = node w"
  by (simp_all add: sent_def)

lemma unpin_refused:
  "http_failure ''IPFS unpin failed'' \<lparr>status = 500, statusText = ''Internal Server Error''\<rparr> =
     Message ''IPFS unpin failed: 500 Internal Server Error''"
  by code_simp

lemmas sample_defs =
  sample_issued_def sample_deleted_def sample_controller_def sample_world_def

text \<open>No transaction changes a record that exists and is inactive.\<close>

lemma transact_inactive_frame:
  assumes "certificateExists f s" and "\<not> isActive (certificates s f)"
  shows "certificates (transact x s) f = certificates s f"
proof (cases x)
  case (Pair t c)
  show ?thesis
  proof (cases c)
    case (Issue g c' e)
    with Pair assms show ?thesis
      by (auto simp: issueCertificate_def certificateExists_def)
  next
    case (Update g c')
    with Pair assms show ?thesis
      by (auto simp: updateCertificate_def certificateActive_def)
  next
    case (Verify g e)
    with Pair show ?thesis
      by (simp add: verifyCertificate_def Let_def)
  next
    case (Delete g)
    with Pair assms show ?thesis
      by (auto simp: deleteCertificate_def)
  qed
qed

lemma transacts_inactive_frame:
  "certificateExists f s \<Longrightarrow> \<not> isActive (certificates s f) \<Longrightarrow>
   certificates (transacts xs s) f = certificates s f"
proof (induction xs arbitrary: s)
  case Nil
  then show ?case by simp
next
  case (Cons x xs)
  have eq: "certificates (transact x s) f = certificates s f"
    using Cons.prems by (rule transact_inactive_frame)
  then have "certificateExists f (transact x s)"
    and "\<not> isActive (certificates (transact x s) f)"
    using Cons.prems by (simp_all add: certificateExists_def)
  then have "certificates (transacts xs (transact x s)) f = certificates (transact x s) f"
    by (rule Cons.IH)
  with eq show ?case by simp
qed

lemma sample_issued_record:
  "certificates sample_issued ''f1'' =
     \<lparr>fid = ''f1'', cid = ''QmA'', email = ''a@x.com'', issueDate = 10, lastModified = 10,
      issuer = 1, isActive = True\<rparr>"
  by (simp add: sample_issued_def contract_defs)

lemma sample_deleted_record:
  "certificates sample_deleted ''f1'' =
     \<lparr>fid = ''f1'', cid = ''QmA'', email = ''a@x.com'', issueDate = 10, lastModified = 10,
      issuer = 1, isActive = False\<rparr>"
  by (simp add: sample_deleted_def contract_defs)

lemma sample_delete:
  "deleteCertificate \<lparr>msg_sender = 1, block_timestamp = 20\<rparr> ''f1'' sample_issued =
     Inr sample_deleted"
  by (simp add: sample_issued_def sample_deleted_def contract_defs)

section \<open>Facts about the codec\<close>

subsection \<open>The keystream\<close>

lemma ctr_xor_length: "length (ctr_xor lib k n p) = length p"
  by (simp add: ctr_xor_def)

lemma ctr_xor_nth:
  "i < length p \<Longrightarrow> ctr_xor lib k n p ! i = p ! i XOR keystream lib k n i"
  by (simp add: ctr_xor_def nth_enumerate_eq)

lemma ctr_xor_involution: "ctr_xor lib k n (ctr_xor lib k n p) = p"
  by (rule nth_equalityI) (simp_all add: ctr_xor_length ctr_xor_nth xor.assoc)

subsection \<open>Base64\<close>

lemma unat_byte: "unat (a :: 8 word) < 256"
  using unsigned_less [of a] by simp

lemma nat_byte1: "(b::nat) < 256 \<Longrightarrow> a div 4 * 4 + (a mod 4 * 16 + b div 16) div 16 = a"
  by simp

lemma nat_byte2:
  assumes "(b::nat) < 256" and "c < 256"
  shows "(a mod 4 * 16 + b div 16) mod 16 * 16 + (b mod 16 * 4 + c div 64) div 4 = b"
proof -
  have hi: "(a mod 4 * 16 + b div 16) mod 16 = b div 16"
    using assms(1) by simp
  have lo: "(b mod 16 * 4 + c div 64) div 4 = b mod 16"
    using assms(2) by simp
  show ?thesis unfolding hi lo by simp
qed

lemma nat_byte3:
  assumes "(c::nat) < 256"
  shows "(b mod 16 * 4 + c div 64) mod 4 * 64 + c mod 64 = c"
proof -
  have hi: "(b mod 16 * 4 + c div 64) mod 4 = c div 64"
    using assms by simp
  show ?thesis unfolding hi by simp
qed

lemma word_byte1:
  fixes a b :: "8 word"
  shows "(of_nat (unat a div 4 * 4 + (unat a mod 4 * 16 + unat b div 16) div 16) :: 8 word) = a"
proof -
  have "unat a div 4 * 4 + (unat a mod 4 * 16 + unat b div 16) div 16 = unat a"
    by (rule nat_byte1) (rule unat_byte)
  then show ?thesis by simp
qed

lemma word_byte2:
  fixes a b c :: "8 word"
  shows "(of_nat ((unat a mod 4 * 16 + unat b div 16) mod 16 * 16
            + (unat b mod 16 * 4 + unat c div 64) div 4) :: 8 word) = b"
proof -
  have "(unat a mod 4 * 16 + unat b div 16) mod 16 * 16
            + (unat b mod 16 * 4 + unat c div 64) div 4 = unat b"
    by (rule nat_byte2) (rule unat_byte)+
  then show ?thesis by simp
qed

lemma word_byte3:
  fixes b c :: "8 word"
  shows "(of_nat ((unat b mod 16 * 4 + unat c div 64) mod 4 * 64 + unat c mod 64) :: 8 word) = c"
proof -
  have "(unat b mod 16 * 4 + unat c div 64) mod 4 * 64 + unat c mod 64 = unat c"
    by (rule nat_byte3) (rule unat_byte)
  then show ?thesis by simp
qed

lemma word_byte1_last:
  "(of_nat (unat a div 4 * 4 + unat a mod 4 * 16 div 16) :: 8 word) = a"
  using word_byte1 [of a 0] by simp

lemma word_byte2_last:
  fixes a b :: "8 word"
  shows "(of_nat ((unat a mod 4 * 16 + unat b div 16) mod 16 * 16 + unat b mod 16 * 4 div 4)
      :: 8 word) = b"
  using word_byte2 [of a b 0] by simp

lemma from_to_sextets: "from_sextets (to_sextets bs) = bs"
proof (induction bs rule: to_sextets.induct)
  case (1 a b c rest)
  then show ?case
    by (simp only: to_sextets.simps from_sextets.simps append_Cons append_Nil
        word_byte1 word_byte2 word_byte3)
next
  case (2 a b)
  show ?case
    by (simp only: to_sextets.simps from_sextets.simps word_byte1 word_byte2_last)
next
  case (3 a)
  show ?case
    by (simp only: to_sextets.simps from_sextets.simps word_byte1_last)
next
  case 4
  show ?case by simp
qed

lemma sextet_bound: "v \<in> set (to_sextets bs) \<Longrightarrow> v < 64"
proof (induction bs arbitrary: v rule: to_sextets.induct)
  case (1 a b c rest)
  have "unat a div 4 < 64" "unat a mod 4 * 16 + unat b div 16 < 64"
    "unat b mod 16 * 4 + unat c div 64 < 64" "unat c mod 64 < 64"
    using unat_byte [of a] unat_byte [of b] unat_byte [of c] by simp_all
  with 1 show ?case by auto
next
  case (2 a b)
  have "unat a div 4 < 64" "unat a mod 4 * 16 + unat b div 16 < 64"
    "unat b mod 16 * 4  < 64"
    using unat_byte [of a] unat_byte [of b] by simp_all
  with 2 show ?case by auto
next
  case (3 a)
  have "unat a div 4 < 64" "unat a mod 4 * 16 < 64"
    using unat_byte [of a] by simp_all
  with 3 show ?case by auto
next
  case 4
  then show ?case by simp
qed

lemma b64_char_value:
  "\<forall>v \<in> set [0..<64]. b64_value (b64_char v) = Some v \<and> b64_char v \<noteq> CHR ''=''"
  by code_simp

lemma b64_value_char: "v < 64 \<Longrightarrow> b64_value (b64_char v) = Some v"
  using b64_char_value by simp

lemma b64_char_not_pad: "v < 64 \<Longrightarrow> b64_char v \<noteq> CHR ''=''"
  using b64_char_value by simp

lemma takeWhile_not_pad:
  "\<forall>v \<in> set vs. v < 64 \<Longrightarrow>
   takeWhile (\<lambda>c. c \<noteq> CHR ''='') (map b64_char vs @ replicate n (CHR ''='')) =
     map b64_char vs"
  by (induction vs) (simp_all add: b64_char_not_pad takeWhile_replicate)

lemma map_filter_b64:
  "\<forall>v \<in> set vs. v < 64 \<Longrightarrow> List.map_filter b64_value (map b64_char vs) = vs"
  by (induction vs) (simp_all add: List.map_filter_simps b64_value_char)

lemma base64_round_trip: "base64_decode (base64_encode bs) = bs"
proof -
  have bound: "\<forall>v \<in> set (to_sextets bs). v < 64"
    using sextet_bound by blast
  show ?thesis
    unfolding base64_decode_def base64_encode_def
    by (simp only: takeWhile_not_pad [OF bound] map_filter_b64 [OF bound] from_to_sextets)
qed

subsection \<open>Bit flips\<close>







subsection \<open>Encoding and decoding\<close>

lemma decryptFromIPFS_of_encoded:
  "decryptFromIPFS lib svc
     (JsonText \<lparr>algorithm = al, fileName = name, originalSize = os, encryptedSize = es,
                timestamp = ts, encryptedContent = base64_encode ct, iv = base64_encode n,
                authTag = base64_encode tg\<rparr>) =
   (case gcm_decrypt lib (secretKey svc) n (utf8 name) tg ct of
      Inl e \<Rightarrow> Inl (Failed ''Failed to decrypt file from IPFS''
                     (Failed ''Failed to decrypt file'' (CryptoError e)))
    | Inr p \<Rightarrow>
        if stringifiable os
        then Inr \<lparr>algorithm = al, fileName = name, originalSize = os, encryptedSize = es,
                  timestamp = ts, content = p\<rparr>
        else Inl (Failed ''Failed to decrypt file from IPFS''
                   (Failed ''Failed to decrypt file'' TypeError)))"
  by (simp add: decryptFile_def base64_round_trip split: sum.splits)

lemma encryptForIPFS_result:
  assumes "length (secretKey svc) = 32" and "rnd \<noteq> []"
  shows "encryptForIPFS lib svc rnd now p name =
     Inr (JsonText \<lparr>algorithm = JStr (svc_algorithm svc), fileName = name,
            originalSize = JNum (int (length p)), encryptedSize = JNum (int (length p)),
            timestamp = JNum now,
            encryptedContent = base64_encode (ctr_xor lib (secretKey svc) rnd p),
            iv = base64_encode rnd,
            authTag = base64_encode
              (tag_of lib (secretKey svc) rnd (utf8 name)
                 (ctr_xor lib (secretKey svc) rnd p))\<rparr>)"
  using assms
  by (simp add: encryptForIPFS_def encryptFile_def gcm_encrypt_def cipher_init_def Let_def
      ctr_xor_length)

subsection \<open>The sample cipher\<close>






lemma sample_gcm_tag_length: "length (tag_of sample_gcm key n a c) = 16"
  by (simp add: sample_gcm_def)


lemma sample_key_length: "length (secretKey sample_service) = 32"
  by (simp add: sample_service_def)

lemma sample_iv_length: "length sample_iv = 16"
  by (simp add: sample_iv_def)

lemma sample_encrypt:
  "encryptForIPFS sample_gcm sample_service sample_iv 1700000000000 (utf8 ''hi there'')
     ''a.txt'' = Inr (JsonText sample_envelope)"
  by code_simp

lemma sample_decrypt:
  "decryptFromIPFS sample_gcm sample_service (JsonText sample_envelope) =
     Inr \<lparr>algorithm = JStr ''aes-256-gcm'', fileName = ''a.txt'', originalSize = JNum 8,
          encryptedSize = JNum 8, timestamp = JNum 1700000000000,
          content = utf8 ''hi there''\<rparr>"
  by code_simp

section \<open>The claims\<close>

subsection \<open>Delete\<close>

text \<open>
  Claim C1, as the code has it. \<open>deleteCertificate\<close> of the controller reads the ledger
  record, then asks the content store to unpin the blob, and only after that sends the
  transaction that marks the record inactive. The unpin request is therefore sent while
  the ledger record is untouched. When it fails, the operation fails: the response is
  status 500 with the message of the failed removal, no deactivation is sent and the
  ledger is unchanged. When it succeeds, the deactivation is sent, signed by the account
  of the service: if that account is the issuer, the response is the success and the
  ledger is the one the contract's \<open>deleteCertificate\<close> produces, with the record
  inactive and every other record as before; if it is not, the contract reverts, the
  operation fails and the ledger is unchanged, the blob being unpinned already.
\<close>

theorem delete_removes_before_deactivating:
  assumes "contract_loaded (blockchainService ctl)"
    and "certificateExists f (ledger w)"
  shows "(let c = cid (certificates (ledger w) f);
              removable = (reachable (node w) \<and> c \<in> set (pins (node w)));
              by_issuer = (member1 (blockchainService ctl) = issuer (certificates (ledger w) f));
              res = CertificateController_deleteCertificate ctl f w
          in requests (snd res) =
               requests w @ [ChainGetCertificate f, IpfsPinRm c] @
                 (if removable then [ChainDeleteCertificate f] else [])
           \<and> (\<not> removable \<longrightarrow>
                 fst res =
                   Json 500 False ''Failed to delete certificate''
                     (ErrorMessage (Failed ''Failed to remove file from IPFS''
                        (if reachable (node w)
                         then Message ''IPFS unpin failed: 500 Internal Server Error''
                         else FetchFailed)))
                 \<and> ledger (snd res) = ledger w
                 \<and> node (snd res) = node w)
           \<and> (removable \<and> by_issuer \<longrightarrow>
                 fst res = Json 200 True ''Certificate deleted successfully'' (Deletion f c)
                 \<and> deleteCertificate
                      \<lparr>msg_sender = member1 (blockchainService ctl),
                       block_timestamp = ledger_time w\<rparr> f (ledger w) = Inr (ledger (snd res))
                 \<and> certificates (ledger (snd res)) f =
                      (certificates (ledger w) f)\<lparr>isActive := False\<rparr>
                 \<and> (\<forall>g. g \<noteq> f \<longrightarrow>
                        certificates (ledger (snd res)) g = certificates (ledger w) g)
                 \<and> pins (node (snd res)) = removeAll c (pins (node w)))
           \<and> (removable \<and> \<not> by_issuer \<longrightarrow>
                 fst res =
                   Json 500 False ''Failed to delete certificate''
                     (ErrorMessage (Failed ''Failed to delete certificate''
                        (EvmRevert AuthorizationError)))
                 \<and> ledger (snd res) = ledger w
                 \<and> pins (node (snd res)) = removeAll c (pins (node w))))"
proof -
  let ?c = "cid (certificates (ledger w) f)"
  have get: "BlockchainService_getCertificate (blockchainService ctl) f w =
      (Inr \<lparr>fid_of = fid (certificates (ledger w) f), cid_of = ?c,
            email_of = email (certificates (ledger w) f),
            issueDate_of = parseInt (issueDate (certificates (ledger w) f)),
            lastModified_of = parseInt (lastModified (certificates (ledger w) f)),
            issuer_of = issuer (certificates (ledger w) f),
            isActive_of = isActive (certificates (ledger w) f),
            versionHistory_of = JUndefined\<rparr>,
       sent (ChainGetCertificate f) w)"
    using assms by (simp add: BlockchainService_getCertificate_def getCertificate_def)
  show ?thesis
  proof (cases "reachable (node w) \<and> ?c \<in> set (pins (node w))")
    case False
    then have rm: "IPFSService_removeFile ?c (sent (ChainGetCertificate f) w) =
        (Inl (Failed ''Failed to remove file from IPFS''
               (if reachable (node w)
                then Message ''IPFS unpin failed: 500 Internal Server Error''
                else FetchFailed)),
         sent (IpfsPinRm ?c) (sent (ChainGetCertificate f) w))"
      by (auto simp: IPFSService_removeFile_def sent_simps pin_rm_def ok_def unpin_refused
          Let_def)
    show ?thesis
      using False
      by (simp add: CertificateController_deleteCertificate_def get rm Let_def sent_simps;
          blast)
  next
    case True
    then have rm: "IPFSService_removeFile ?c (sent (ChainGetCertificate f) w) =
        (Inr True,
         (sent (IpfsPinRm ?c) (sent (ChainGetCertificate f) w))
           \<lparr>node := (node w)\<lparr>pins := removeAll ?c (pins (node w))\<rparr>\<rparr>)"
      by (simp add: IPFSService_removeFile_def sent_simps pin_rm_def ok_def Let_def)
    show ?thesis
      using True assms
      by (auto simp: CertificateController_deleteCertificate_def get rm Let_def sent_simps
          BlockchainService_deleteCertificate_def deleteCertificate_def onlyIssuer_def)
  qed
qed

text \<open>With the node reachable, the blob pinned and the service signing as the issuer,
  the three requests go out in this order, the response is the success, and the record
  ends inactive.\<close>

theorem delete_removes_before_deactivating_witness:
  "contract_loaded (blockchainService sample_controller)
   \<and> certificateExists ''f1'' (ledger (sample_world sample_issued True))
   \<and> requests (snd (CertificateController_deleteCertificate sample_controller ''f1''
        (sample_world sample_issued True))) =
       [ChainGetCertificate ''f1'', IpfsPinRm ''QmA'', ChainDeleteCertificate ''f1'']
   \<and> fst (CertificateController_deleteCertificate sample_controller ''f1''
        (sample_world sample_issued True)) =
       Json 200 True ''Certificate deleted successfully'' (Deletion ''f1'' ''QmA'')
   \<and> certificates (ledger (snd (CertificateController_deleteCertificate sample_controller
        ''f1'' (sample_world sample_issued True)))) ''f1'' =
       \<lparr>fid = ''f1'', cid = ''QmA'', email = ''a@x.com'', issueDate = 10, lastModified = 10,
        issuer = 1, isActive = False\<rparr>"
proof -
  have loaded: "contract_loaded (blockchainService sample_controller)"
    by (simp add: sample_controller_def)
  have ex: "certificateExists ''f1'' (ledger (sample_world sample_issued True))"
    by (simp add: sample_world_def certificateExists_def sample_issued_record)
  have signer: "member1 (blockchainService sample_controller) = 1"
    by (simp add: sample_controller_def)
  from delete_removes_before_deactivating [OF loaded ex] loaded ex
  show ?thesis
    by (simp add: sample_world_def sample_issued_record signer Let_def)
qed

text \<open>Claim C1 as stated fails when the node is unreachable: the removal is attempted
  (it is the last request sent), the operation fails with status 500, and the record is
  still active.\<close>

theorem delete_counterexample:
  "fst (CertificateController_deleteCertificate sample_controller ''f1''
          (sample_world sample_issued False)) =
     Json 500 False ''Failed to delete certificate''
       (ErrorMessage (Failed ''Failed to remove file from IPFS'' FetchFailed))
   \<and> requests (snd (CertificateController_deleteCertificate sample_controller ''f1''
          (sample_world sample_issued False))) =
     [ChainGetCertificate ''f1'', IpfsPinRm ''QmA'']
   \<and> isActive (certificates (ledger (snd (CertificateController_deleteCertificate
          sample_controller ''f1'' (sample_world sample_issued False)))) ''f1'')"
  by (simp add: CertificateController_deleteCertificate_def service_defs getCertificate_def
      certificateExists_def sample_controller_def sample_world_def sample_issued_record)

subsection \<open>The envelope\<close>




text \<open>
  Claim C3. For every plaintext, every non-empty name, a 32-byte key and the 16 random
  bytes of the IV, \<open>encryptForIPFS\<close> succeeds and \<open>decryptFromIPFS\<close> of its result succeeds
  with the same content and the same file name (and with the sizes, the algorithm name
  and the timestamp that were written). The tag of the library is 16 bytes long.
\<close>

theorem round_trip:
  assumes "length (secretKey svc) = 32"
    and "length rnd = 16"
    and "name \<noteq> []"
    and "length (tag_of lib (secretKey svc) rnd (utf8 name)
           (ctr_xor lib (secretKey svc) rnd p)) = 16"
  shows "\<exists>b. encryptForIPFS lib svc rnd now p name = Inr b \<and>
             decryptFromIPFS lib svc b =
               Inr \<lparr>algorithm = JStr (svc_algorithm svc), fileName = name,
                    originalSize = JNum (int (length p)),
                    encryptedSize = JNum (int (length p)),
                    timestamp = JNum now, content = p\<rparr>"
proof -
  from assms(2) have rnd: "rnd \<noteq> []" by auto
  have dec: "gcm_decrypt lib (secretKey svc) rnd (utf8 name)
               (tag_of lib (secretKey svc) rnd (utf8 name) (ctr_xor lib (secretKey svc) rnd p))
               (ctr_xor lib (secretKey svc) rnd p) = Inr p"
    using assms(1,4) rnd
    by (simp add: gcm_decrypt_def cipher_init_def valid_tag_length_def ctr_xor_involution)
  show ?thesis
    unfolding encryptForIPFS_result [OF assms(1) rnd]
    by (simp add: decryptFromIPFS_of_encoded dec del: decryptFromIPFS.simps)
qed

theorem round_trip_witness:
  "length (secretKey sample_service) = 32 \<and> length sample_iv = 16 \<and> ''a.txt'' \<noteq> []
   \<and> decryptFromIPFS sample_gcm sample_service (JsonText sample_envelope) =
       Inr \<lparr>algorithm = JStr ''aes-256-gcm'', fileName = ''a.txt'', originalSize = JNum 8,
            encryptedSize = JNum 8, timestamp = JNum 1700000000000,
            content = utf8 ''hi there''\<rparr>"
proof -
  have name: "''a.txt'' \<noteq> []" by simp
  have len: "length (utf8 ''hi there'') = 8" by (simp add: utf8_def)
  have alg: "svc_algorithm sample_service = ''aes-256-gcm''" by (simp add: sample_service_def)
  from round_trip [OF sample_key_length sample_iv_length name sample_gcm_tag_length,
      where p = "utf8 ''hi there''" and now = 1700000000000]
  obtain b where
    enc: "encryptForIPFS sample_gcm sample_service sample_iv 1700000000000
            (utf8 ''hi there'') ''a.txt'' = Inr b"
    and dec: "decryptFromIPFS sample_gcm sample_service b =
       Inr \<lparr>algorithm = JStr (svc_algorithm sample_service), fileName = ''a.txt'',
            originalSize = JNum (int (length (utf8 ''hi there''))),
            encryptedSize = JNum (int (length (utf8 ''hi there''))),
            timestamp = JNum 1700000000000, content = utf8 ''hi there''\<rparr>"
    by blast
  from enc have b: "b = JsonText sample_envelope"
    by (simp only: sample_encrypt sum.inject)
  from dec show ?thesis
    unfolding b len alg
    using sample_key_length sample_iv_length by simp
qed

subsection \<open>Verification of an inactive certificate\<close>

text \<open>
  Claim C4, as the code has it. For a record that exists and is inactive, the contract's
  \<open>verifyCertificate\<close> reverts with "Certificate is not active" for every candidate email:
  the modifier \<open>certificateActive\<close> guards it. The answer to the inactive case that is not
  an error comes from the controller, which reads the record first and, finding it
  inactive, responds with \<open>isValid = false\<close> and the reason "Certificate is not active"
  without calling the contract's \<open>verifyCertificate\<close>.
\<close>

theorem verify_inactive:
  assumes "contract_loaded (blockchainService ctl)"
    and "certificateExists f (ledger w)"
    and "\<not> isActive (certificates (ledger w) f)"
  shows "verifyCertificate t f e (ledger w) = Inl InactiveError
       \<and> CertificateController_verifyCertificate ctl (JoiValue (f, e)) w =
           (Json 200 False ''Certificate verification failed''
              (Verification f e False (Some ''Certificate is not active'') None),
            w\<lparr>requests := requests w @ [ChainGetCertificate f]\<rparr>)"
  using assms
  by (auto simp: CertificateController_verifyCertificate_def service_defs getCertificate_def
      verifyCertificate_def certificateActive_def)

theorem verify_inactive_witness:
  "certificateExists ''f1'' (ledger (sample_world sample_deleted True))
   \<and> \<not> isActive (certificates (ledger (sample_world sample_deleted True)) ''f1'')
   \<and> verifyCertificate \<lparr>msg_sender = 2, block_timestamp = 30\<rparr> ''f1'' ''a@x.com''
       sample_deleted = Inl InactiveError
   \<and> fst (CertificateController_verifyCertificate sample_controller
            (JoiValue (''f1'', ''a@x.com'')) (sample_world sample_deleted True)) =
       Json 200 False ''Certificate verification failed''
         (Verification ''f1'' ''a@x.com'' False (Some ''Certificate is not active'') None)"
proof -
  have loaded: "contract_loaded (blockchainService sample_controller)"
    by (simp add: sample_controller_def)
  have ex: "certificateExists ''f1'' (ledger (sample_world sample_deleted True))"
    by (simp add: sample_world_def certificateExists_def sample_deleted_record)
  have inactive: "\<not> isActive (certificates (ledger (sample_world sample_deleted True)) ''f1'')"
    by (simp add: sample_world_def sample_deleted_record)
  from verify_inactive [OF loaded ex inactive,
      where t = "\<lparr>msg_sender = 2, block_timestamp = 30\<rparr>" and e = "''a@x.com''"]
    ex inactive
  show ?thesis
    by (simp add: sample_world_def)
qed

text \<open>Claim C4 as stated fails on the contract: the record of \<open>f1\<close> exists and is
  inactive, and \<open>verifyCertificate\<close> is an error, not the result \<open>false\<close>.\<close>

theorem verify_inactive_counterexample:
  "certificateExists ''f1'' sample_deleted
   \<and> \<not> isActive (certificates sample_deleted ''f1'')
   \<and> verifyCertificate \<lparr>msg_sender = 2, block_timestamp = 30\<rparr> ''f1'' ''a@x.com''
       sample_deleted = Inl InactiveError"
  by (simp add: verifyCertificate_def certificateExists_def certificateActive_def
      sample_deleted_record)

subsection \<open>The life of a ledger record\<close>

text \<open>
  Claim C5, as the code has it. Once \<open>deleteCertificate\<close> has succeeded on a file
  identifier, then after any further transactions by any senders every
  \<open>updateCertificate\<close> on it fails: with "Certificate is not active" when the caller is
  the stored issuer, and with "Only issuer can modify certificate" otherwise, because the
  issuer check runs before the activity check. \<open>getCertificate\<close> still succeeds and
  returns the record as it was at the deactivation, with \<open>isActive = false\<close> and the same
  content identifier.
\<close>

theorem terminal_deactivation:
  assumes del: "deleteCertificate t f s = Inr s1"
  shows "updateCertificate t' f newCid (transacts xs s1) =
           Inl (if msg_sender t' = issuer (certificates s f) then InactiveError
                else AuthorizationError)
       \<and> getCertificate f (transacts xs s1) = Inr ((certificates s f)\<lparr>isActive := False\<rparr>)
       \<and> cid ((certificates s f)\<lparr>isActive := False\<rparr>) = cid (certificates s f)"
proof -
  from del have ex: "certificateExists f s"
    and s1: "certificates s1 f = (certificates s f)\<lparr>isActive := False\<rparr>"
    by (auto simp: deleteCertificate_def split: if_splits)
  from ex s1 have ex1: "certificateExists f s1" and in1: "\<not> isActive (certificates s1 f)"
    by (simp_all add: certificateExists_def)
  have fr: "certificates (transacts xs s1) f = (certificates s f)\<lparr>isActive := False\<rparr>"
    using transacts_inactive_frame [OF ex1 in1] s1 by simp
  show ?thesis
    using ex fr
    by (auto simp: updateCertificate_def getCertificate_def certificateExists_def
        onlyIssuer_def certificateActive_def)
qed

text \<open>After the deactivation of \<open>f1\<close>, another sender tries to issue it again and the
  issuer tries to update it; a further update by the issuer is refused as inactive.\<close>

theorem terminal_deactivation_witness:
  "deleteCertificate \<lparr>msg_sender = 1, block_timestamp = 20\<rparr> ''f1'' sample_issued =
     Inr sample_deleted
   \<and> updateCertificate \<lparr>msg_sender = 1, block_timestamp = 50\<rparr> ''f1'' ''QmC''
       (transacts [(\<lparr>msg_sender = 2, block_timestamp = 30\<rparr>, Issue ''f1'' ''QmB'' ''b@x.com''),
                   (\<lparr>msg_sender = 1, block_timestamp = 40\<rparr>, Update ''f1'' ''QmB'')]
          sample_deleted) = Inl InactiveError
   \<and> getCertificate ''f1''
       (transacts [(\<lparr>msg_sender = 2, block_timestamp = 30\<rparr>, Issue ''f1'' ''QmB'' ''b@x.com''),
                   (\<lparr>msg_sender = 1, block_timestamp = 40\<rparr>, Update ''f1'' ''QmB'')]
          sample_deleted) =
       Inr \<lparr>fid = ''f1'', cid = ''QmA'', email = ''a@x.com'', issueDate = 10,
            lastModified = 10, issuer = 1, isActive = False\<rparr>"
  using terminal_deactivation [OF sample_delete,
      where t' = "\<lparr>msg_sender = 1, block_timestamp = 50\<rparr>" and newCid = "''QmC''"
        and xs = "[(\<lparr>msg_sender = 2, block_timestamp = 30\<rparr>, Issue ''f1'' ''QmB'' ''b@x.com''),
           (\<lparr>msg_sender = 1, block_timestamp = 40\<rparr>, Update ''f1'' ''QmB'')]"]
  by (simp add: sample_delete sample_issued_record)

text \<open>Claim C5 as stated fails for a caller who is not the issuer: the update after the
  deactivation fails, but with the authorization error.\<close>

theorem terminal_deactivation_counterexample:
  "deleteCertificate \<lparr>msg_sender = 1, block_timestamp = 20\<rparr> ''f1'' sample_issued =
     Inr sample_deleted
   \<and> updateCertificate \<lparr>msg_sender = 2, block_timestamp = 30\<rparr> ''f1'' ''QmB'' sample_deleted =
       Inl AuthorizationError
   \<and> AuthorizationError \<noteq> InactiveError"
  by (simp add: sample_delete updateCertificate_def certificateExists_def onlyIssuer_def
      sample_deleted_record)

text \<open>
  Claim C6, as the code has it. In a ledger that holds a record for a file identifier,
  active or not, \<open>issueCertificate\<close> with that identifier fails and leaves the ledger as it
  was. The error is "Certificate with this FID already exists" when the three arguments
  are non-empty; the checks for an empty argument run first, so a call with an empty
  content identifier or email fails with the error of that argument.
\<close>

theorem duplicate_create:
  assumes "certificateExists f s"
  shows "issueCertificate t f c e s =
           Inl (if f = [] then InvalidFid else if c = [] then InvalidCid
                else if e = [] then InvalidEmail else DuplicateError)
       \<and> transact (t, Issue f c e) s = s"
  using assms by (simp add: issueCertificate_def certificateExists_def)

theorem duplicate_create_witness:
  "certificateExists ''f1'' sample_deleted
   \<and> issueCertificate \<lparr>msg_sender = 2, block_timestamp = 30\<rparr> ''f1'' ''QmB'' ''b@x.com''
       sample_deleted = Inl DuplicateError
   \<and> transact (\<lparr>msg_sender = 2, block_timestamp = 30\<rparr>, Issue ''f1'' ''QmB'' ''b@x.com'')
       sample_deleted = sample_deleted"
proof -
  have ex: "certificateExists ''f1'' sample_deleted"
    by (simp add: certificateExists_def sample_deleted_record)
  from duplicate_create [OF ex,
      where t = "\<lparr>msg_sender = 2, block_timestamp = 30\<rparr>" and c = "''QmB''"
        and e = "''b@x.com''"] ex
  show ?thesis by simp
qed

text \<open>Claim C6 as stated fails for a call with an empty content identifier: it fails
  with "CID cannot be empty".\<close>

theorem duplicate_create_counterexample:
  "certificateExists ''f1'' sample_issued
   \<and> issueCertificate \<lparr>msg_sender = 1, block_timestamp = 20\<rparr> ''f1'' '''' ''a@x.com''
       sample_issued = Inl InvalidCid
   \<and> InvalidCid \<noteq> DuplicateError"
  by (simp add: issueCertificate_def certificateExists_def sample_issued_record)

text \<open>
  Claim C7. For a record that exists and a sender other than its stored issuer, both
  \<open>updateCertificate\<close> and \<open>deleteCertificate\<close> fail with "Only issuer can modify
  certificate", whatever the new content identifier and whether the record is active or
  not, and the ledger is unchanged.
\<close>

theorem issuer_only_mutation:
  assumes "certificateExists f s" and "msg_sender t \<noteq> issuer (certificates s f)"
  shows "updateCertificate t f newCid s = Inl AuthorizationError
       \<and> deleteCertificate t f s = Inl AuthorizationError
       \<and> transact (t, Update f newCid) s = s
       \<and> transact (t, Delete f) s = s"
  using assms by (auto simp: updateCertificate_def deleteCertificate_def onlyIssuer_def)

theorem issuer_only_mutation_witness:
  "certificateExists ''f1'' sample_issued
   \<and> msg_sender \<lparr>msg_sender = 2, block_timestamp = 30\<rparr> \<noteq> issuer (certificates sample_issued ''f1'')
   \<and> updateCertificate \<lparr>msg_sender = 2, block_timestamp = 30\<rparr> ''f1'' ''QmB'' sample_issued =
       Inl AuthorizationError
   \<and> deleteCertificate \<lparr>msg_sender = 2, block_timestamp = 30\<rparr> ''f1'' sample_issued =
       Inl AuthorizationError"
proof -
  have ex: "certificateExists ''f1'' sample_issued"
    by (simp add: certificateExists_def sample_issued_record)
  have other: "msg_sender \<lparr>msg_sender = 2, block_timestamp = 30\<rparr>
                 \<noteq> issuer (certificates sample_issued ''f1'')"
    by (simp add: sample_issued_record)
  from issuer_only_mutation [OF ex other, where newCid = "''QmB''"] ex other
  show ?thesis by simp
qed

subsection \<open>Download\<close>

text \<open>
  Claim C8. For an active record and a download request whose two route parameters are
  present, with a content identifier different from the one of the record, the controller
  answers with status 400 and "CID does not match certificate". The only request it has
  sent is the read of the ledger record: nothing is fetched from the content store.
\<close>

theorem download_address_mismatch:
  assumes "contract_loaded (blockchainService ctl)"
    and "certificateExists f (ledger w)"
    and "isActive (certificates (ledger w) f)"
    and "f \<noteq> []" and "c' \<noteq> []"
    and "c' \<noteq> cid (certificates (ledger w) f)"
  shows "CertificateController_downloadCertificate lib ctl f c' w =
           (Json 400 False ''CID does not match certificate'' NoData,
            w\<lparr>requests := requests w @ [ChainGetCertificate f]\<rparr>)"
  using assms
  by (auto simp: CertificateController_downloadCertificate_def service_defs getCertificate_def)

theorem download_address_mismatch_witness:
  "certificateExists ''f1'' (ledger (sample_world sample_issued True))
   \<and> isActive (certificates (ledger (sample_world sample_issued True)) ''f1'')
   \<and> ''QmB'' \<noteq> cid (certificates (ledger (sample_world sample_issued True)) ''f1'')
   \<and> CertificateController_downloadCertificate sample_gcm sample_controller ''f1'' ''QmB''
       (sample_world sample_issued True) =
       (Json 400 False ''CID does not match certificate'' NoData,
        (sample_world sample_issued True)\<lparr>requests := [ChainGetCertificate ''f1'']\<rparr>)"
proof -
  have loaded: "contract_loaded (blockchainService sample_controller)"
    by (simp add: sample_controller_def)
  have ex: "certificateExists ''f1'' (ledger (sample_world sample_issued True))"
    by (simp add: sample_world_def certificateExists_def sample_issued_record)
  have active: "isActive (certificates (ledger (sample_world sample_issued True)) ''f1'')"
    by (simp add: sample_world_def sample_issued_record)
  have f: "''f1'' \<noteq> []" and c: "''QmB'' \<noteq> []" by simp_all
  have diff: "''QmB'' \<noteq> cid (certificates (ledger (sample_world sample_issued True)) ''f1'')"
    by (simp add: sample_world_def sample_issued_record)
  from download_address_mismatch [OF loaded ex active f c diff, where lib = sample_gcm]
    ex active diff
  show ?thesis
    by (simp add: sample_world_def)
qed

subsection \<open>Update\<close>

text \<open>
  Claim C9. A successful \<open>updateCertificate\<close> (which needs an active record) changes, of
  the record, the content identifier and the time of last modification and nothing
  else: the file identifier, the email, the issuer, the issue date and the active flag are
  as before. The other records, the index by email and the list of identifiers are
  unchanged, and a following \<open>getCertificate\<close> returns the new content identifier and the
  original email.
\<close>

theorem update_pointer_only:
  assumes "updateCertificate t f newCid s = Inr s'"
  shows "certificates s' f =
           (certificates s f)\<lparr>cid := newCid, lastModified := block_timestamp t\<rparr>
       \<and> fid (certificates s' f) = fid (certificates s f)
       \<and> email (certificates s' f) = email (certificates s f)
       \<and> issuer (certificates s' f) = issuer (certificates s f)
       \<and> issueDate (certificates s' f) = issueDate (certificates s f)
       \<and> isActive (certificates s' f) = isActive (certificates s f)
       \<and> isActive (certificates s f)
       \<and> (\<forall>g. g \<noteq> f \<longrightarrow> certificates s' g = certificates s g)
       \<and> certificatesByEmail s' = certificatesByEmail s
       \<and> allFIDs s' = allFIDs s
       \<and> getCertificate f s' =
           Inr ((certificates s f)\<lparr>cid := newCid, lastModified := block_timestamp t\<rparr>)"
  using assms
  by (auto simp: updateCertificate_def getCertificate_def certificateExists_def
      certificateActive_def split: if_splits)

theorem update_pointer_only_witness:
  "getCertificate ''f1''
     (transact (\<lparr>msg_sender = 1, block_timestamp = 20\<rparr>, Update ''f1'' ''QmB'') sample_issued) =
     Inr \<lparr>fid = ''f1'', cid = ''QmB'', email = ''a@x.com'', issueDate = 10,
          lastModified = 20, issuer = 1, isActive = True\<rparr>"
proof -
  have "\<exists>s'. updateCertificate \<lparr>msg_sender = 1, block_timestamp = 20\<rparr> ''f1'' ''QmB''
           sample_issued = Inr s'"
    by (simp add: updateCertificate_def certificateExists_def onlyIssuer_def
        certificateActive_def sample_issued_record)
  then obtain s' where
    up: "updateCertificate \<lparr>msg_sender = 1, block_timestamp = 20\<rparr> ''f1'' ''QmB''
           sample_issued = Inr s'" ..
  from update_pointer_only [OF up] up
  show ?thesis
    by (simp add: sample_issued_record)
qed

subsection \<open>Metadata of the envelope\<close>

text \<open>
  Claim C10, as the code has it. The fields \<open>algorithm\<close>, \<open>originalSize\<close> and \<open>timestamp\<close>
  of a stored envelope are not covered by the authentication tag. If \<open>decryptFromIPFS\<close>
  accepts an envelope, then for the envelope with these three fields replaced by any
  JSON values the cipher authenticates the data as before, and the outcome is decided by
  the log line of \<open>decryptFile\<close> that prints \<open>originalSize\<close>: when the replaced
  \<open>originalSize\<close> can be converted to a string, decoding succeeds, returns the same
  content and reports the replaced values; when it cannot, decoding fails with a
  \<open>TypeError\<close>. The replaced \<open>algorithm\<close> and \<open>timestamp\<close> are never looked at.
\<close>

theorem metadata_not_authenticated:
  assumes "decryptFromIPFS lib svc (JsonText d) = Inr r"
  shows "decryptFromIPFS lib svc
           (JsonText (d\<lparr>algorithm := a, originalSize := n, timestamp := t\<rparr>)) =
           (if stringifiable n
            then Inr (r\<lparr>algorithm := a, originalSize := n, timestamp := t\<rparr>)
            else Inl (Failed ''Failed to decrypt file from IPFS''
                       (Failed ''Failed to decrypt file'' TypeError)))
       \<and> content (r\<lparr>algorithm := a, originalSize := n, timestamp := t\<rparr>) = content r"
  using assms
  by (auto simp: decryptFile_def Let_def split: sum.splits if_splits)

theorem metadata_not_authenticated_witness:
  "decryptFromIPFS sample_gcm sample_service (JsonText sample_envelope) =
     Inr \<lparr>algorithm = JStr ''aes-256-gcm'', fileName = ''a.txt'', originalSize = JNum 8,
          encryptedSize = JNum 8, timestamp = JNum 1700000000000,
          content = utf8 ''hi there''\<rparr>
   \<and> decryptFromIPFS sample_gcm sample_service
     (JsonText (sample_envelope\<lparr>algorithm := JObj [(''toString'', JNull)],
                                originalSize := JArr [JNum (- 1), JObj []],
                                timestamp := JNull\<rparr>)) =
     Inr \<lparr>algorithm = JObj [(''toString'', JNull)], fileName = ''a.txt'',
          originalSize = JArr [JNum (- 1), JObj []],
          encryptedSize = JNum 8, timestamp = JNull, content = utf8 ''hi there''\<rparr>"
  using metadata_not_authenticated [OF sample_decrypt,
      where a = "JObj [(''toString'', JNull)]" and n = "JArr [JNum (- 1), JObj []]"
        and t = JNull]
    sample_decrypt
  by simp

text \<open>Claim C10 as stated fails for an \<open>originalSize\<close> that is the JSON object
  \<open>{"toString": 0}\<close>: the sample envelope is accepted, and with this one field
  replaced decoding fails.\<close>

theorem metadata_not_authenticated_counterexample:
  "decryptFromIPFS sample_gcm sample_service (JsonText sample_envelope) =
     Inr \<lparr>algorithm = JStr ''aes-256-gcm'', fileName = ''a.txt'', originalSize = JNum 8,
          encryptedSize = JNum 8, timestamp = JNum 1700000000000,
          content = utf8 ''hi there''\<rparr>
   \<and> decryptFromIPFS sample_gcm sample_service
       (JsonText (sample_envelope\<lparr>originalSize := JObj [(''toString'', JNum 0)]\<rparr>)) =
       Inl (Failed ''Failed to decrypt file from IPFS''
             (Failed ''Failed to decrypt file'' TypeError))"
  by code_simp

end
